theory Spec2Isabelle
  imports Complex_Main "HOL-Library.Word"
begin

section \<open>JavaScript strings, numbers and the engine's tables\<close>

text \<open>
  A JavaScript string is a sequence of UTF-16 code units; \<open>s.length\<close> counts code
  units. The string literals of the source are ASCII, and \<open>js\<close> embeds such a literal.
\<close>

type_synonym js_string = "16 word list"

definition js :: "string \<Rightarrow> js_string" where
  "js s = map (\<lambda>c. of_nat (of_char c)) s"

text \<open>
  A JavaScript number is NaN, an infinity or a finite value. Every finite double is a
  rational number, so \<open>Finite\<close> ranges over a superset of the doubles; \<open>+0\<close> and
  \<open>-0\<close> are both \<open>Finite 0\<close> (the source never tells them apart).
\<close>

datatype js_number = NaN | PosInfinity | NegInfinity | Finite rat

text \<open>The relational operator \<open>x < y\<close> on numbers: false as soon as one side is NaN.\<close>

fun number_lt :: "js_number \<Rightarrow> js_number \<Rightarrow> bool" where
  "number_lt NaN y = False"
| "number_lt x NaN = False"
| "number_lt (Finite a) (Finite b) = (a < b)"
| "number_lt (Finite a) PosInfinity = True"
| "number_lt (Finite a) NegInfinity = False"
| "number_lt NegInfinity NegInfinity = False"
| "number_lt NegInfinity y = True"
| "number_lt PosInfinity y = False"

definition string_length :: "js_string \<Rightarrow> js_number" where
  "string_length s = Finite (of_nat (length s))"

text \<open>The thirty values of the Unicode General_Category property.\<close>

datatype general_category =
    Lu | Ll | Lt | Lm | Lo
  | Mn | Mc | Me
  | Nd | Nl | No
  | Pc | Pd | Ps | Pe | Pi | Pf | Po
  | Sm | Sc | Sk | So
  | Zs | Zl | Zp
  | Cc | Cf | Cs | Co | Cn

text \<open>
  The source relies on two tables of the JavaScript engine that it does not define: the
  general category of every code point (behind \<open>\p{..}\<close> in a regular expression) and
  the rendering of a number as a string (behind a template literal and a property key).
  Both are parameters of the model.
\<close>

record js_engine =
  category_of :: "nat \<Rightarrow> general_category"
  number_to_string :: "js_number \<Rightarrow> js_string"

subsection \<open>Code points of a string\<close>

definition is_leading_surrogate :: "16 word \<Rightarrow> bool" where
  "is_leading_surrogate u = (0xD800 \<le> u \<and> u \<le> 0xDBFF)"

definition is_trailing_surrogate :: "16 word \<Rightarrow> bool" where
  "is_trailing_surrogate u = (0xDC00 \<le> u \<and> u \<le> 0xDFFF)"

definition surrogate_pair :: "16 word \<Rightarrow> 16 word \<Rightarrow> nat" where
  "surrogate_pair hi lo = (unat hi - 0xD800) * 0x400 + (unat lo - 0xDC00) + 0x10000"

text \<open>
  Under the \<open>u\<close> flag a regular expression reads the string as code points: a leading
  surrogate followed by a trailing one is one code point, any other code unit (a lone
  surrogate too) is a code point of its own.
\<close>

fun code_points :: "js_string \<Rightarrow> nat list" where
  "code_points [] = []"
| "code_points [u] = [unat u]"
| "code_points (u # v # rest) =
     (if is_leading_surrogate u \<and> is_trailing_surrogate v
      then surrogate_pair u v # code_points rest
      else unat u # code_points (v # rest))"

text \<open>The UTF-16 encoding of a code point, as a string holds it.\<close>

definition utf16_encode :: "nat \<Rightarrow> js_string" where
  "utf16_encode cp =
     (if cp < 0x10000 then [of_nat cp]
      else [of_nat (0xD800 + (cp - 0x10000) div 0x400), of_nat (0xDC00 + (cp - 0x10000) mod 0x400)])"

subsection \<open>Character classes and \<open>RegExp.prototype.test\<close>\<close>

definition class_Lu :: "js_engine \<Rightarrow> nat \<Rightarrow> bool" where
  "class_Lu E cp = (category_of E cp = Lu)"

definition class_Ll :: "js_engine \<Rightarrow> nat \<Rightarrow> bool" where
  "class_Ll E cp = (category_of E cp = Ll)"

definition class_L :: "js_engine \<Rightarrow> nat \<Rightarrow> bool" where
  "class_L E cp = (category_of E cp \<in> {Lu, Ll, Lt, Lm, Lo})"

definition class_N :: "js_engine \<Rightarrow> nat \<Rightarrow> bool" where
  "class_N E cp = (category_of E cp \<in> {Nd, Nl, No})"

definition class_Zs :: "js_engine \<Rightarrow> nat \<Rightarrow> bool" where
  "class_Zs E cp = (category_of E cp = Zs)"

text \<open>The negated class \<open>[^\p{L}\p{N}\p{Zs}]\<close>.\<close>

definition class_not_L_N_Zs :: "js_engine \<Rightarrow> nat \<Rightarrow> bool" where
  "class_not_L_N_Zs E cp = (\<not> (class_L E cp \<or> class_N E cp \<or> class_Zs E cp))"

text \<open>
  \<open>/C/u.test(s)\<close> for a pattern that is one character class \<open>C\<close>: the match is tried
  at every code point in turn, and succeeds at the first one in the class.
\<close>

definition regexp_test :: "(nat \<Rightarrow> bool) \<Rightarrow> js_string \<Rightarrow> bool" where
  "regexp_test cls s = list_ex cls (code_points s)"

section \<open>The password validator\<close>

record PasswordPolicyConfig =
  minLength :: js_number
  requireUppercase :: bool
  requireLowercase :: bool
  requireNumber :: bool
  requireSymbol :: bool

record PasswordValidationResult =
  isValid :: bool
  errors :: "js_string list"

definition validatePassword ::
  "js_engine \<Rightarrow> js_string \<Rightarrow> PasswordPolicyConfig \<Rightarrow> PasswordValidationResult" where
  "validatePassword E password policy =
     (let errors0 = [];
          errors1 =
            (if number_lt (string_length password) (minLength policy)
             then errors0 @ [js ''Password must be at least '' @
                             number_to_string E (minLength policy) @ js '' characters long'']
             else errors0);
          errors2 =
            (if requireUppercase policy then
               (let hasUpper = regexp_test (class_Lu E) password in
                if \<not> hasUpper
                then errors1 @ [js ''Password must contain at least one uppercase letter'']
                else errors1)
             else errors1);
          errors3 =
            (if requireLowercase policy then
               (let hasLower = regexp_test (class_Ll E) password in
                if \<not> hasLower
                then errors2 @ [js ''Password must contain at least one lowercase letter'']
                else errors2)
             else errors2);
          errors4 =
            (if requireNumber policy then
               (let hasNumber = regexp_test (class_N E) password in
                if \<not> hasNumber
                then errors3 @ [js ''Password must contain at least one number'']
                else errors3)
             else errors3);
          errors5 =
            (if requireSymbol policy then
               (let hasSymbol = regexp_test (class_not_L_N_Zs E) password in
                if \<not> hasSymbol
                then errors4 @ [js ''Password must contain at least one symbol (special character)'']
                else errors4)
             else errors4)
      in \<lparr>isValid = (length errors5 = 0), errors = errors5\<rparr>)"

text \<open>
  \<open>result.errors[0] || null\<close>: an empty string is falsy, so an empty first message
  would give \<open>null\<close> as well.
\<close>

definition validatePasswordSingleError ::
  "js_engine \<Rightarrow> js_string \<Rightarrow> PasswordPolicyConfig \<Rightarrow> js_string option" where
  "validatePasswordSingleError E password policy =
     (let result = validatePassword E password policy in
      if isValid result then None
      else if length (errors result) > 0
           then (if errors result ! 0 \<noteq> [] then Some (errors result ! 0) else None)
           else None)"

section \<open>JavaScript values\<close>

text \<open>
  The argument of \<open>extractAuthError\<close> has type \<open>unknown\<close>: a parsed response body,
  that is plain data (null, booleans, numbers, strings, arrays, objects), or
  \<open>undefined\<close>. An object is its table of own properties; the first binding of a name
  is the property's value.
\<close>

datatype js_value =
    Undefined
  | Null
  | Bool bool
  | Num js_number
  | Str js_string
  | Arr "js_value list"
  | Obj "(js_string \<times> js_value) list"

text \<open>
  The object literal \<open>errorMap\<close> inherits from \<open>Object.prototype\<close>, so a lookup on it
  can also yield one of the built-in properties (a function, or for \<open>__proto__\<close> the
  prototype object). \<open>Builtin k\<close> is the value of the inherited property named \<open>k\<close>.
\<close>

datatype js_any = Data js_value | Builtin js_string

datatype js_error = TypeError

datatype js_typeof = T_undefined | T_object | T_boolean | T_number | T_string

fun typeof :: "js_value \<Rightarrow> js_typeof" where
  "typeof Undefined = T_undefined"
| "typeof Null = T_object"
| "typeof (Bool b) = T_boolean"
| "typeof (Num n) = T_number"
| "typeof (Str s) = T_string"
| "typeof (Arr xs) = T_object"
| "typeof (Obj ps) = T_object"

text \<open>ToBoolean: the falsy values are undefined, null, false, 0, NaN and the empty string.\<close>

fun truthy :: "js_value \<Rightarrow> bool" where
  "truthy Undefined = False"
| "truthy Null = False"
| "truthy (Bool b) = b"
| "truthy (Num n) = (n \<noteq> NaN \<and> n \<noteq> Finite 0)"
| "truthy (Str s) = (s \<noteq> [])"
| "truthy (Arr xs) = True"
| "truthy (Obj ps) = True"

fun truthy_any :: "js_any \<Rightarrow> bool" where
  "truthy_any (Data v) = truthy v"
| "truthy_any (Builtin k) = True"

text \<open>The operator \<open>a || b\<close>: \<open>a\<close> when it is truthy, else \<open>b\<close>.\<close>

definition or_value :: "js_value \<Rightarrow> js_value \<Rightarrow> js_value" where
  "or_value a b = (if truthy a then a else b)"

definition or_any :: "js_any \<Rightarrow> js_any \<Rightarrow> js_any" where
  "or_any a b = (if truthy_any a then a else b)"

text \<open>
  Reading the property \<open>error\<close>, \<open>code\<close> or \<open>message\<close> of plain data. No prototype
  defines these names, and the own properties of an array are its indices and
  \<open>length\<close>, so only an object's own table can hold them.
\<close>

fun get_property :: "js_value \<Rightarrow> js_string \<Rightarrow> js_value" where
  "get_property (Obj ps) k = (case map_of ps k of Some v \<Rightarrow> v | None \<Rightarrow> Undefined)"
| "get_property v k = Undefined"

fun join_with :: "js_string \<Rightarrow> js_string list \<Rightarrow> js_string" where
  "join_with sep [] = []"
| "join_with sep [s] = s"
| "join_with sep (s # t # ss) = s @ sep @ join_with sep (t # ss)"

fun sequence_results :: "('e + 'a) list \<Rightarrow> 'e + 'a list" where
  "sequence_results [] = Inr []"
| "sequence_results (r # rs) =
     (case r of
        Inl e \<Rightarrow> Inl e
      | Inr x \<Rightarrow> (case sequence_results rs of Inl e \<Rightarrow> Inl e | Inr xs \<Rightarrow> Inr (x # xs)))"

text \<open>
  ToString on plain data, which is also ToPropertyKey for \<open>errorMap[errorCode]\<close>.
  An array is joined with commas (\<open>Array.prototype.join\<close>: undefined and null
  elements give the empty string). An object is converted by \<open>Object.prototype.toString\<close>
  unless it has an own property \<open>toString\<close>: in plain data that property is not callable,
  \<open>valueOf\<close> then yields no primitive either, and the conversion throws a TypeError.
\<close>

fun ToString :: "js_engine \<Rightarrow> js_value \<Rightarrow> js_error + js_string" where
  "ToString E Undefined = Inr (js ''undefined'')"
| "ToString E Null = Inr (js ''null'')"
| "ToString E (Bool b) = Inr (if b then js ''true'' else js ''false'')"
| "ToString E (Num n) = Inr (number_to_string E n)"
| "ToString E (Str s) = Inr s"
| "ToString E (Arr xs) =
     (case sequence_results
             (map (\<lambda>x. if x = Undefined \<or> x = Null then Inr [] else ToString E x) xs) of
        Inl e \<Rightarrow> Inl e
      | Inr ss \<Rightarrow> Inr (join_with (js '','') ss))"
| "ToString E (Obj ps) =
     (if map_of ps (js ''toString'') \<noteq> None then Inl TypeError
      else Inr (js ''[object Object]''))"

section \<open>The authentication error mapper\<close>

record AuthError =
  code :: js_value
  message :: js_any

text \<open>The own properties of the object literal \<open>errorMap\<close>.\<close>

definition errorMap :: "(js_string \<times> js_string) list" where
  "errorMap =
     [(js ''invalid_credentials'',
         js ''Invalid email or password. Please check your credentials and try again.''),
      (js ''invalid_email'', js ''Please enter a valid email address.''),
      (js ''invalid_password'',
         js ''Password does not meet requirements. Please check the password policy.''),
      (js ''user_already_exists'',
         js ''An account with this email already exists. Please sign in instead.''),
      (js ''email_already_registered'',
         js ''An account with this email already exists. Please sign in instead.''),
      (js ''csrf_token_invalid'',
         js ''Security token expired. Please refresh the page and try again.''),
      (js ''csrf_token_missing'',
         js ''Security token missing. Please refresh the page and try again.''),
      (js ''csrf_token_expired'',
         js ''Security token expired. Please refresh the page and try again.''),
      (js ''rate_limit_exceeded'', js ''Too many attempts. Please wait a moment and try again.''),
      (js ''account_locked'',
         js ''Account temporarily locked due to multiple failed login attempts. Please try again in 15 minutes.''),
      (js ''account_suspended'',
         js ''Your account has been suspended. Please contact support for assistance.''),
      (js ''service_unavailable'',
         js ''Authentication service is temporarily unavailable. Please try again in a moment.''),
      (js ''internal_error'', js ''An unexpected error occurred. Please try again.''),
      (js ''network_error'', js ''Network error. Please check your connection and try again.''),
      (js ''timeout'', js ''Request timed out. Please try again.'')]"

text \<open>The properties every ordinary object inherits from \<open>Object.prototype\<close>.\<close>

definition object_prototype_properties :: "js_string list" where
  "object_prototype_properties =
     [js ''constructor'', js ''hasOwnProperty'', js ''isPrototypeOf'',
      js ''propertyIsEnumerable'', js ''toLocaleString'', js ''toString'', js ''valueOf'',
      js ''__proto__'', js ''__defineGetter__'', js ''__defineSetter__'',
      js ''__lookupGetter__'', js ''__lookupSetter__'']"

text \<open>\<open>errorMap[key]\<close>: an own property first, an inherited one next, else undefined.\<close>

definition errorMap_get :: "js_string \<Rightarrow> js_any" where
  "errorMap_get key =
     (case map_of errorMap key of
        Some m \<Rightarrow> Data (Str m)
      | None \<Rightarrow> if key \<in> set object_prototype_properties then Builtin key else Data Undefined)"

definition mapAuthError :: "js_engine \<Rightarrow> js_value \<Rightarrow> js_any \<Rightarrow> js_error + js_any" where
  "mapAuthError E errorCode defaultMessage =
     (if \<not> truthy errorCode
      then Inr (or_any defaultMessage (Data (Str (js ''An error occurred. Please try again.''))))
      else
        (case ToString E errorCode of
           Inl e \<Rightarrow> Inl e
         | Inr key \<Rightarrow>
             Inr (or_any (or_any (errorMap_get key) defaultMessage)
                    (Data (Str (js ''An error occurred. Please try again.''))))))"

definition extractAuthError :: "js_engine \<Rightarrow> js_value \<Rightarrow> js_error + AuthError option" where
  "extractAuthError E data =
     (if \<not> truthy data \<or> typeof data \<noteq> T_object then Inr None
      else
        (let error = get_property data (js ''error'') in
         if \<not> truthy error then Inr None
         else if typeof error = T_string
           then Inr (Some \<lparr>code = Str (js ''unknown''), message = Data error\<rparr>)
         else if typeof error = T_object \<and> error \<noteq> Null then
           (let errorCode = or_value (get_property error (js ''code'')) (Str (js ''unknown'')) in
            case (if truthy (get_property error (js ''message''))
                  then Inr (Data (get_property error (js ''message'')))
                  else mapAuthError E errorCode (Data Undefined)) of
              Inl e \<Rightarrow> Inl e
            | Inr errorMessage \<Rightarrow>
                (case mapAuthError E errorCode errorMessage of
                   Inl e \<Rightarrow> Inl e
                 | Inr m \<Rightarrow> Inr (Some \<lparr>code = errorCode, message = m\<rparr>)))
         else Inr None))"

section \<open>A concrete engine for running the model\<close>

text \<open>
  To run the definitions on concrete inputs the two engine tables are instantiated on
  the part that the examples use: the general categories of the Basic Latin block
  (U+0000 to U+007F, as the Unicode Character Database lists them; every other code
  point is given \<open>Cn\<close>), and the decimal rendering of integers (what Number::toString
  yields for an integer below \<open>10^21\<close>; a fraction is rounded down first, and no
  example below has one).
\<close>

definition basic_latin_category :: "nat \<Rightarrow> general_category" where
  "basic_latin_category cp =
     (if cp < 0x20 then Cc
      else if cp = 0x20 then Zs
      else if cp \<in> {0x24} then Sc
      else if cp \<in> {0x28, 0x5B, 0x7B} then Ps
      else if cp \<in> {0x29, 0x5D, 0x7D} then Pe
      else if cp \<in> {0x2B, 0x3C, 0x3D, 0x3E, 0x7C, 0x7E} then Sm
      else if cp = 0x2D then Pd
      else if cp \<in> {0x5E, 0x60} then Sk
      else if cp = 0x5F then Pc
      else if 0x30 \<le> cp \<and> cp \<le> 0x39 then Nd
      else if 0x41 \<le> cp \<and> cp \<le> 0x5A then Lu
      else if 0x61 \<le> cp \<and> cp \<le> 0x7A then Ll
      else if cp < 0x7F then Po
      else if cp = 0x7F then Cc
      else Cn)"

fun decimal :: "nat \<Rightarrow> js_string" where
  "decimal n =
     (if n < 10 then [of_nat (48 + n)]
      else decimal (n div 10) @ [of_nat (48 + n mod 10)])"

declare decimal.simps [simp del]

fun integer_to_string :: "js_number \<Rightarrow> js_string" where
  "integer_to_string NaN = js ''NaN''"
| "integer_to_string PosInfinity = js ''Infinity''"
| "integer_to_string NegInfinity = js ''-Infinity''"
| "integer_to_string (Finite q) =
     (if q < 0 then js ''-'' @ decimal (nat (- \<lfloor>q\<rfloor>)) else decimal (nat \<lfloor>q\<rfloor>))"

definition sample_engine :: js_engine where
  "sample_engine = \<lparr>category_of = basic_latin_category, number_to_string = integer_to_string\<rparr>"

section \<open>The rules as the specification words them\<close>

text \<open>
  The specification describes the validator as five rules, evaluated in this order, each
  with one message. A character of the password is a code point of it.
\<close>

datatype password_rule = LengthRule | UppercaseRule | LowercaseRule | NumberRule | SymbolRule

definition letter_categories :: "general_category set" where
  "letter_categories = {Lu, Ll, Lt, Lm, Lo}"

definition number_categories :: "general_category set" where
  "number_categories = {Nd, Nl, No}"

definition punctuation_categories :: "general_category set" where
  "punctuation_categories = {Pc, Pd, Ps, Pe, Pi, Pf, Po}"

fun spec_rule_fails ::
  "js_engine \<Rightarrow> password_rule \<Rightarrow> js_string \<Rightarrow> PasswordPolicyConfig \<Rightarrow> bool" where
  "spec_rule_fails E LengthRule password policy =
     number_lt (string_length password) (minLength policy)"
| "spec_rule_fails E UppercaseRule password policy =
     (requireUppercase policy \<and> (\<forall>cp \<in> set (code_points password). category_of E cp \<noteq> Lu))"
| "spec_rule_fails E LowercaseRule password policy =
     (requireLowercase policy \<and> (\<forall>cp \<in> set (code_points password). category_of E cp \<noteq> Ll))"
| "spec_rule_fails E NumberRule password policy =
     (requireNumber policy \<and>
      (\<forall>cp \<in> set (code_points password). category_of E cp \<notin> number_categories))"
| "spec_rule_fails E SymbolRule password policy =
     (requireSymbol policy \<and>
      (\<forall>cp \<in> set (code_points password).
         category_of E cp \<in> letter_categories \<union> number_categories \<union> {Zs}))"

fun spec_rule_message :: "js_engine \<Rightarrow> password_rule \<Rightarrow> PasswordPolicyConfig \<Rightarrow> js_string" where
  "spec_rule_message E LengthRule policy =
     js ''Password must be at least '' @ number_to_string E (minLength policy) @
     js '' characters long''"
| "spec_rule_message E UppercaseRule policy =
     js ''Password must contain at least one uppercase letter''"
| "spec_rule_message E LowercaseRule policy =
     js ''Password must contain at least one lowercase letter''"
| "spec_rule_message E NumberRule policy =
     js ''Password must contain at least one number''"
| "spec_rule_message E SymbolRule policy =
     js ''Password must contain at least one symbol (special character)''"

text \<open>A Unicode scalar value: a code point that is not a surrogate.\<close>

definition is_scalar_value :: "nat \<Rightarrow> bool" where
  "is_scalar_value cp = (cp < 0x110000 \<and> \<not> (0xD800 \<le> cp \<and> cp \<le> 0xDFFF))"

text \<open>
  Plain data whose conversion to a property key cannot throw: no object with an own
  property \<open>toString\<close>, directly or inside arrays.
\<close>

fun no_own_toString :: "js_value \<Rightarrow> bool" where
  "no_own_toString (Obj ps) = (map_of ps (js ''toString'') = None)"
| "no_own_toString (Arr xs) = list_all no_own_toString xs"
| "no_own_toString v = True"

section \<open>Properties of the password validator\<close>

lemma validatePassword_errors:
  "errors (validatePassword E pw pol) =
     (if number_lt (string_length pw) (minLength pol)
      then [js ''Password must be at least '' @ number_to_string E (minLength pol) @
            js '' characters long''] else []) @
     (if requireUppercase pol \<and> \<not> regexp_test (class_Lu E) pw
      then [js ''Password must contain at least one uppercase letter''] else []) @
     (if requireLowercase pol \<and> \<not> regexp_test (class_Ll E) pw
      then [js ''Password must contain at least one lowercase letter''] else []) @
     (if requireNumber pol \<and> \<not> regexp_test (class_N E) pw
      then [js ''Password must contain at least one number''] else []) @
     (if requireSymbol pol \<and> \<not> regexp_test (class_not_L_N_Zs E) pw
      then [js ''Password must contain at least one symbol (special character)''] else [])"
  by (simp add: validatePassword_def Let_def)

lemma validatePassword_isValid:
  "isValid (validatePassword E pw pol) = (errors (validatePassword E pw pol) = [])"
  by (simp add: validatePassword_def Let_def)

lemma regexp_test_iff: "regexp_test cls s = (\<exists>cp \<in> set (code_points s). cls cp)"
  by (simp add: regexp_test_def list_ex_iff)

text \<open>The rules of the specification are the tests the code makes.\<close>

lemma spec_rule_fails_code:
  "spec_rule_fails E UppercaseRule pw pol =
     (requireUppercase pol \<and> \<not> regexp_test (class_Lu E) pw)"
  "spec_rule_fails E LowercaseRule pw pol =
     (requireLowercase pol \<and> \<not> regexp_test (class_Ll E) pw)"
  "spec_rule_fails E NumberRule pw pol =
     (requireNumber pol \<and> \<not> regexp_test (class_N E) pw)"
  "spec_rule_fails E SymbolRule pw pol =
     (requireSymbol pol \<and> \<not> regexp_test (class_not_L_N_Zs E) pw)"
  by (auto simp: regexp_test_iff class_Lu_def class_Ll_def class_N_def class_L_def class_Zs_def
      class_not_L_N_Zs_def letter_categories_def number_categories_def)

subsection \<open>Which message stands for which rule\<close>

lemma length_message_distinct:
  "js ''Password must be at least '' @ x \<noteq>
     js ''Password must contain at least one uppercase letter''"
  "js ''Password must be at least '' @ x \<noteq>
     js ''Password must contain at least one lowercase letter''"
  "js ''Password must be at least '' @ x \<noteq> js ''Password must contain at least one number''"
  "js ''Password must be at least '' @ x \<noteq>
     js ''Password must contain at least one symbol (special character)''"
  by (simp_all add: js_def)

lemma rule_messages_distinct:
  "js ''Password must contain at least one uppercase letter'' \<noteq>
     js ''Password must contain at least one lowercase letter''"
  "js ''Password must contain at least one uppercase letter'' \<noteq>
     js ''Password must contain at least one number''"
  "js ''Password must contain at least one uppercase letter'' \<noteq>
     js ''Password must contain at least one symbol (special character)''"
  "js ''Password must contain at least one lowercase letter'' \<noteq>
     js ''Password must contain at least one number''"
  "js ''Password must contain at least one lowercase letter'' \<noteq>
     js ''Password must contain at least one symbol (special character)''"
  "js ''Password must contain at least one number'' \<noteq>
     js ''Password must contain at least one symbol (special character)''"
  by code_simp+

lemma rule_message_in_errors:
  "js ''Password must contain at least one uppercase letter''
     \<in> set (errors (validatePassword E pw pol)) \<longleftrightarrow> spec_rule_fails E UppercaseRule pw pol"
  "js ''Password must contain at least one lowercase letter''
     \<in> set (errors (validatePassword E pw pol)) \<longleftrightarrow> spec_rule_fails E LowercaseRule pw pol"
  "js ''Password must contain at least one number''
     \<in> set (errors (validatePassword E pw pol)) \<longleftrightarrow> spec_rule_fails E NumberRule pw pol"
  "js ''Password must contain at least one symbol (special character)''
     \<in> set (errors (validatePassword E pw pol)) \<longleftrightarrow> spec_rule_fails E SymbolRule pw pol"
  using length_message_distinct [of "number_to_string E (minLength pol) @ js '' characters long''"]
    rule_messages_distinct
  unfolding validatePassword_errors spec_rule_fails_code
  by (auto split: if_splits)

lemma length_message_in_errors:
  "js ''Password must be at least '' @ number_to_string E (minLength pol) @
     js '' characters long'' \<in> set (errors (validatePassword E pw pol)) \<longleftrightarrow>
   number_lt (string_length pw) (minLength pol)"
  using length_message_distinct [of "number_to_string E (minLength pol) @ js '' characters long''"]
  unfolding validatePassword_errors
  by (auto split: if_splits)

text \<open>Unfolding these evaluates the model on a concrete input.\<close>

lemmas run_simps =
  js_def is_leading_surrogate_def is_trailing_surrogate_def utf16_encode_def is_scalar_value_def
  sample_engine_def basic_latin_category_def letter_categories_def number_categories_def
  punctuation_categories_def class_Lu_def class_Ll_def class_L_def class_N_def class_Zs_def
  class_not_L_N_Zs_def regexp_test_def string_length_def

lemma decimal_8: "decimal 8 = [0x38]"
  by code_simp

text \<open>
  C1. For every password and policy, \<open>isValid\<close> holds exactly when \<open>errors\<close> is empty;
  \<open>errors\<close> is the list obtained by going through the five rules in the order length,
  uppercase, lowercase, number, symbol and keeping the one message of each rule that
  fails (all five are evaluated, none twice); the length rule fails exactly when
  \<open>password.length < policy.minLength\<close>, which for a finite threshold is the comparison
  of the number of code units with it; its message embeds the threshold as the engine
  renders it; and that message is in \<open>errors\<close> exactly when the length rule fails.
\<close>

theorem validatePassword_rules:
  "isValid (validatePassword E pw pol) = (errors (validatePassword E pw pol) = [])
   \<and> errors (validatePassword E pw pol) =
       concat (map (\<lambda>r. if spec_rule_fails E r pw pol then [spec_rule_message E r pol] else [])
                 [LengthRule, UppercaseRule, LowercaseRule, NumberRule, SymbolRule])
   \<and> (spec_rule_fails E LengthRule pw pol \<longleftrightarrow> number_lt (string_length pw) (minLength pol))
   \<and> (\<forall>q. minLength pol = Finite q \<longrightarrow>
         (spec_rule_fails E LengthRule pw pol \<longleftrightarrow> of_nat (length pw) < q))
   \<and> spec_rule_message E LengthRule pol =
       js ''Password must be at least '' @ number_to_string E (minLength pol) @
       js '' characters long''
   \<and> (js ''Password must be at least '' @ number_to_string E (minLength pol) @
         js '' characters long'' \<in> set (errors (validatePassword E pw pol)) \<longleftrightarrow>
       number_lt (string_length pw) (minLength pol))"
  unfolding length_message_in_errors
  by (simp add: validatePassword_isValid validatePassword_errors spec_rule_fails_code
      string_length_def del: spec_rule_fails.simps(2-5))

text \<open>
  The end-to-end example of the specification: the policy with threshold 8 and every
  requirement set, on the password \<open>pass\<close>.
\<close>

theorem validatePassword_rules_witness:
  "errors (validatePassword sample_engine (js ''pass'')
      \<lparr>minLength = Finite 8, requireUppercase = True, requireLowercase = True,
       requireNumber = True, requireSymbol = True\<rparr>) =
     [js ''Password must be at least 8 characters long'',
      js ''Password must contain at least one uppercase letter'',
      js ''Password must contain at least one number'',
      js ''Password must contain at least one symbol (special character)'']
   \<and> isValid (validatePassword sample_engine (js ''pass'')
      \<lparr>minLength = Finite 8, requireUppercase = True, requireLowercase = True,
       requireNumber = True, requireSymbol = True\<rparr>) = False"
proof -
  let ?pol = "\<lparr>minLength = Finite 8, requireUppercase = True, requireLowercase = True,
       requireNumber = True, requireSymbol = True\<rparr>"
  have fails:
    "spec_rule_fails sample_engine LengthRule (js ''pass'') ?pol"
    "spec_rule_fails sample_engine UppercaseRule (js ''pass'') ?pol"
    "\<not> spec_rule_fails sample_engine LowercaseRule (js ''pass'') ?pol"
    "spec_rule_fails sample_engine NumberRule (js ''pass'') ?pol"
    "spec_rule_fails sample_engine SymbolRule (js ''pass'') ?pol"
    by code_simp+
  have msg: "spec_rule_message sample_engine LengthRule ?pol =
      js ''Password must be at least 8 characters long''"
    by code_simp
  show ?thesis
    using validatePassword_rules [of sample_engine "js ''pass''" ?pol]
    by (simp add: fails msg del: spec_rule_fails.simps spec_rule_message.simps(1))
qed

subsection \<open>Code points of an extended string\<close>

text \<open>
  Appending code units that do not start with a trailing surrogate leaves the code points
  read so far as they are: no pair can form across the seam.
\<close>

lemma code_points_append:
  "ys \<noteq> [] \<Longrightarrow> \<not> is_trailing_surrogate (hd ys) \<Longrightarrow>
   code_points (xs @ ys) = code_points xs @ code_points ys"
proof (induction xs rule: code_points.induct)
  case 1
  show ?case by simp
next
  case (2 u)
  then obtain y ys' where ys: "ys = y # ys'" by (cases ys) auto
  with 2 show ?case by simp
next
  case (3 u v rest)
  then show ?case by simp
qed

lemma unat_code_unit: "n < 0x10000 \<Longrightarrow> unat (of_nat n :: 16 word) = n"
  by (simp add: unat_of_nat)

lemma utf16_encode_supplementary:
  assumes "is_scalar_value cp" and "\<not> cp < 0x10000"
  obtains hi lo where "utf16_encode cp = [hi, lo]"
    and "is_leading_surrogate hi" and "\<not> is_trailing_surrogate hi"
    and "is_trailing_surrogate lo" and "surrogate_pair hi lo = cp"
proof -
  define x where "x = cp - 0x10000"
  define hi :: "16 word" where "hi = of_nat (0xD800 + x div 0x400)"
  define lo :: "16 word" where "lo = of_nat (0xDC00 + x mod 0x400)"
  have x: "x < 0x100000" and cp: "cp = x + 0x10000"
    using assms by (simp_all add: is_scalar_value_def x_def)
  then have d: "x div 0x400 < 0x400" and m: "x mod 0x400 < 0x400" by simp_all
  have hi: "unat hi = 0xD800 + x div 0x400"
    unfolding hi_def using d by (intro unat_code_unit) simp
  have lo: "unat lo = 0xDC00 + x mod 0x400"
    unfolding lo_def using m by (intro unat_code_unit) simp
  have enc: "utf16_encode cp = [hi, lo]"
    using assms(2) unfolding utf16_encode_def hi_def lo_def x_def by (simp only: if_False)
  have "is_leading_surrogate hi" "\<not> is_trailing_surrogate hi" "is_trailing_surrogate lo"
    using d m by (simp_all add: is_leading_surrogate_def is_trailing_surrogate_def
        word_le_nat_alt hi lo)
  moreover have "surrogate_pair hi lo = cp"
    by (simp add: surrogate_pair_def hi lo cp)
  ultimately show thesis using that enc by blast
qed

lemma code_points_utf16_encode:
  assumes "is_scalar_value cp"
  shows "code_points (utf16_encode cp) = [cp]"
    and "\<not> is_trailing_surrogate (hd (utf16_encode cp))"
    and "utf16_encode cp \<noteq> []"
proof -
  show "utf16_encode cp \<noteq> []" by (simp add: utf16_encode_def)
  show "code_points (utf16_encode cp) = [cp]"
  proof (cases "cp < 0x10000")
    case True
    then show ?thesis by (simp add: utf16_encode_def unat_code_unit)
  next
    case False
    from utf16_encode_supplementary [OF assms False] show ?thesis
      by (metis code_points.simps(1,3))
  qed
  show "\<not> is_trailing_surrogate (hd (utf16_encode cp))"
  proof (cases "cp < 0x10000")
    case True
    then show ?thesis using assms
      by (simp add: utf16_encode_def is_trailing_surrogate_def word_le_nat_alt unat_code_unit
          is_scalar_value_def)
  next
    case False
    from utf16_encode_supplementary [OF assms False] show ?thesis
      by (metis list.sel(1))
  qed
qed

lemma code_points_append_scalar:
  "is_scalar_value cp \<Longrightarrow> code_points (pw @ utf16_encode cp) = code_points pw @ [cp]"
  by (simp add: code_points_append code_points_utf16_encode)

text \<open>
  C2. A rule of the validator fails when its message is in \<open>errors\<close>. The uppercase rule
  fails exactly when \<open>requireUppercase\<close> is set and no code point of the password has the
  general category Lu; the lowercase rule likewise with Ll, the number rule with the
  number categories Nd, Nl, No; the symbol rule fails exactly when \<open>requireSymbol\<close> is set
  and every code point is a letter, a number or a space separator (so a password of
  letters, digits and spaces fails it). Appending one punctuation character (any scalar
  value of a punctuation category, in its UTF-16 encoding) makes the symbol rule pass.
\<close>

theorem validatePassword_character_rules:
  "(js ''Password must contain at least one uppercase letter''
      \<in> set (errors (validatePassword E pw pol)) \<longleftrightarrow>
    requireUppercase pol \<and> (\<forall>cp \<in> set (code_points pw). category_of E cp \<noteq> Lu))
   \<and> (js ''Password must contain at least one lowercase letter''
      \<in> set (errors (validatePassword E pw pol)) \<longleftrightarrow>
    requireLowercase pol \<and> (\<forall>cp \<in> set (code_points pw). category_of E cp \<noteq> Ll))
   \<and> (js ''Password must contain at least one number''
      \<in> set (errors (validatePassword E pw pol)) \<longleftrightarrow>
    requireNumber pol \<and> (\<forall>cp \<in> set (code_points pw). category_of E cp \<notin> number_categories))
   \<and> (js ''Password must contain at least one symbol (special character)''
      \<in> set (errors (validatePassword E pw pol)) \<longleftrightarrow>
    requireSymbol pol \<and>
    (\<forall>cp \<in> set (code_points pw).
       category_of E cp \<in> letter_categories \<union> number_categories \<union> {Zs}))
   \<and> (\<forall>cp. is_scalar_value cp \<and> category_of E cp \<in> punctuation_categories \<longrightarrow>
         js ''Password must contain at least one symbol (special character)''
           \<notin> set (errors (validatePassword E (pw @ utf16_encode cp) pol)))"
  by (simp add: rule_message_in_errors code_points_append_scalar letter_categories_def
      number_categories_def punctuation_categories_def) auto

text \<open>
  With every requirement set, \<open>Password 123\<close> fails the symbol rule, \<open>Password 123!\<close>
  passes it, and \<open>password123!\<close> fails the uppercase rule.
\<close>

theorem validatePassword_character_rules_witness:
  "js ''Password must contain at least one symbol (special character)''
     \<in> set (errors (validatePassword sample_engine (js ''Password 123'')
         \<lparr>minLength = Finite 8, requireUppercase = True, requireLowercase = True,
          requireNumber = True, requireSymbol = True\<rparr>))
   \<and> js ''Password must contain at least one symbol (special character)''
     \<notin> set (errors (validatePassword sample_engine (js ''Password 123!'')
         \<lparr>minLength = Finite 8, requireUppercase = True, requireLowercase = True,
          requireNumber = True, requireSymbol = True\<rparr>))
   \<and> js ''Password must contain at least one uppercase letter''
     \<in> set (errors (validatePassword sample_engine (js ''password123!'')
         \<lparr>minLength = Finite 8, requireUppercase = True, requireLowercase = True,
          requireNumber = True, requireSymbol = True\<rparr>))"
proof -
  let ?pol = "\<lparr>minLength = Finite 8, requireUppercase = True, requireLowercase = True,
          requireNumber = True, requireSymbol = True\<rparr>"
  have only_letters_digits_spaces:
    "\<forall>cp \<in> set (code_points (js ''Password 123'')).
       category_of sample_engine cp \<in> letter_categories \<union> number_categories \<union> {Zs}"
    by (simp add: run_simps)
  have bang: "is_scalar_value 0x21" "category_of sample_engine 0x21 \<in> punctuation_categories"
    "js ''Password 123'' @ utf16_encode 0x21 = js ''Password 123!''"
    by (simp_all add: run_simps)
  have no_upper: "\<forall>cp \<in> set (code_points (js ''password123!'')). category_of sample_engine cp \<noteq> Lu"
    by (simp add: run_simps)
  have "js ''Password must contain at least one symbol (special character)''
     \<in> set (errors (validatePassword sample_engine (js ''Password 123'') ?pol))"
    using validatePassword_character_rules [of sample_engine "js ''Password 123''" ?pol]
      only_letters_digits_spaces by simp
  moreover have "js ''Password must contain at least one symbol (special character)''
     \<notin> set (errors (validatePassword sample_engine (js ''Password 123!'') ?pol))"
    using validatePassword_character_rules [of sample_engine "js ''Password 123''" ?pol] bang
    by metis
  moreover have "js ''Password must contain at least one uppercase letter''
     \<in> set (errors (validatePassword sample_engine (js ''password123!'') ?pol))"
    using validatePassword_character_rules [of sample_engine "js ''password123!''" ?pol]
      no_upper by simp
  ultimately show ?thesis by blast
qed

lemma errors_nonempty_strings:
  "e \<in> set (errors (validatePassword E pw pol)) \<Longrightarrow> e \<noteq> []"
  by (auto simp: validatePassword_errors js_def split: if_splits)

text \<open>
  C7. \<open>validatePasswordSingleError\<close> is absent exactly when \<open>validatePassword\<close> reports
  \<open>isValid\<close>; otherwise the error list is not empty and the result is its first element.
\<close>

theorem validatePasswordSingleError_consistent:
  "(validatePasswordSingleError E pw pol = None \<longleftrightarrow> isValid (validatePassword E pw pol))
   \<and> (\<not> isValid (validatePassword E pw pol) \<longrightarrow>
        (\<exists>e es. errors (validatePassword E pw pol) = e # es
           \<and> validatePasswordSingleError E pw pol = Some e))"
proof (cases "errors (validatePassword E pw pol)")
  case Nil
  then show ?thesis
    by (simp add: validatePasswordSingleError_def validatePassword_isValid)
next
  case (Cons e es)
  then have "e \<noteq> []" using errors_nonempty_strings [of e E pw pol] by simp
  with Cons show ?thesis
    by (simp add: validatePasswordSingleError_def validatePassword_isValid)
qed

theorem validatePasswordSingleError_consistent_witness:
  "validatePasswordSingleError sample_engine (js ''Password123!'')
      \<lparr>minLength = Finite 8, requireUppercase = True, requireLowercase = True,
       requireNumber = True, requireSymbol = True\<rparr> = None
   \<and> validatePasswordSingleError sample_engine (js ''pass'')
      \<lparr>minLength = Finite 8, requireUppercase = True, requireLowercase = True,
       requireNumber = True, requireSymbol = True\<rparr> =
     Some (js ''Password must be at least 8 characters long'')"
proof -
  let ?pol = "\<lparr>minLength = Finite 8, requireUppercase = True, requireLowercase = True,
       requireNumber = True, requireSymbol = True\<rparr>"
  have valid: "isValid (validatePassword sample_engine (js ''Password123!'') ?pol)"
    by (simp add: validatePassword_isValid validatePassword_errors run_simps)
  have invalid: "\<not> isValid (validatePassword sample_engine (js ''pass'') ?pol)"
    and first: "hd (errors (validatePassword sample_engine (js ''pass'') ?pol)) =
       js ''Password must be at least 8 characters long''"
    by (simp_all add: validatePassword_isValid validatePassword_errors run_simps decimal_8)
  have "validatePasswordSingleError sample_engine (js ''Password123!'') ?pol = None"
    using validatePasswordSingleError_consistent [of sample_engine "js ''Password123!''" ?pol]
      valid by simp
  moreover have "validatePasswordSingleError sample_engine (js ''pass'') ?pol =
     Some (js ''Password must be at least 8 characters long'')"
    using validatePasswordSingleError_consistent [of sample_engine "js ''pass''" ?pol]
      invalid first by auto
  ultimately show ?thesis by blast
qed

section \<open>Properties of the error mapper\<close>

subsection \<open>String literals\<close>

lemma inj_js_char: "inj (\<lambda>c. of_nat (of_char c) :: 16 word)"
proof (rule injI)
  fix c d :: char
  assume eq: "(of_nat (of_char c) :: 16 word) = of_nat (of_char d)"
  have small: "of_char x < (0x10000 :: nat)" for x :: char
  proof -
    have "of_char x < (256 :: nat)" by (rule nat_of_char_less_256)
    then show ?thesis by linarith
  qed
  from eq have "unat (of_nat (of_char c) :: 16 word) = unat (of_nat (of_char d) :: 16 word)"
    by simp
  then have "(of_char c :: nat) = of_char d"
    by (simp only: unat_code_unit [OF small])
  then show "c = d" by simp
qed

lemma js_inject: "js a = js b \<longleftrightarrow> a = b"
  unfolding js_def by (simp add: inj_map_eq_map [OF inj_js_char])

lemma js_empty_iff: "js a = [] \<longleftrightarrow> a = []" "[] = js a \<longleftrightarrow> a = []"
  by (auto simp: js_def)

lemmas lookup_simps =
  js_inject js_empty_iff errorMap_def object_prototype_properties_def errorMap_get_def

subsection \<open>The table and the inherited properties\<close>

lemma errorMap_lookup:
  "map_of errorMap (js ''invalid_credentials'') =
     Some (js ''Invalid email or password. Please check your credentials and try again.'')"
  "map_of errorMap (js ''invalid_email'') =
     Some (js ''Please enter a valid email address.'')"
  "map_of errorMap (js ''invalid_password'') =
     Some (js ''Password does not meet requirements. Please check the password policy.'')"
  "map_of errorMap (js ''user_already_exists'') =
     Some (js ''An account with this email already exists. Please sign in instead.'')"
  "map_of errorMap (js ''email_already_registered'') =
     Some (js ''An account with this email already exists. Please sign in instead.'')"
  "map_of errorMap (js ''csrf_token_invalid'') =
     Some (js ''Security token expired. Please refresh the page and try again.'')"
  "map_of errorMap (js ''csrf_token_missing'') =
     Some (js ''Security token missing. Please refresh the page and try again.'')"
  "map_of errorMap (js ''csrf_token_expired'') =
     Some (js ''Security token expired. Please refresh the page and try again.'')"
  "map_of errorMap (js ''rate_limit_exceeded'') =
     Some (js ''Too many attempts. Please wait a moment and try again.'')"
  "map_of errorMap (js ''account_locked'') =
     Some (js ''Account temporarily locked due to multiple failed login attempts. Please try again in 15 minutes.'')"
  "map_of errorMap (js ''account_suspended'') =
     Some (js ''Your account has been suspended. Please contact support for assistance.'')"
  "map_of errorMap (js ''service_unavailable'') =
     Some (js ''Authentication service is temporarily unavailable. Please try again in a moment.'')"
  "map_of errorMap (js ''internal_error'') =
     Some (js ''An unexpected error occurred. Please try again.'')"
  "map_of errorMap (js ''network_error'') =
     Some (js ''Network error. Please check your connection and try again.'')"
  "map_of errorMap (js ''timeout'') =
     Some (js ''Request timed out. Please try again.'')"
  by (simp_all add: errorMap_def js_inject)

lemma errorMap_nonempty: "map_of errorMap k = Some m \<Longrightarrow> k \<noteq> [] \<and> m \<noteq> []"
proof -
  assume "map_of errorMap k = Some m"
  then have "(k, m) \<in> set errorMap" by (rule map_of_SomeD)
  then show ?thesis unfolding errorMap_def by (auto simp: js_empty_iff)
qed

lemma object_prototype_properties_nonempty: "k \<in> set object_prototype_properties \<Longrightarrow> k \<noteq> []"
  unfolding object_prototype_properties_def by (auto simp: js_empty_iff)

lemma errorMap_get_truthy_cases:
  "errorMap_get k = Data Undefined \<or> truthy_any (errorMap_get k)"
  by (auto simp: errorMap_get_def dest: errorMap_nonempty split: option.splits)

lemma errorMap_get_unknown: "errorMap_get (js ''unknown'') = Data Undefined"
  by (simp add: lookup_simps)

lemma errorMap_get_nonexistent_code: "errorMap_get (js ''nonexistent_code'') = Data Undefined"
  by (simp add: lookup_simps)

lemma errorMap_constructor:
  "map_of errorMap (js ''constructor'') = None"
  "js ''constructor'' \<in> set object_prototype_properties"
  by (simp_all add: lookup_simps)

subsection \<open>The branches of \<open>mapAuthError\<close>\<close>

lemma fallback_truthy: "truthy_any (Data (Str (js ''An error occurred. Please try again.'')))"
  by (simp add: js_empty_iff)

lemma mapAuthError_falsy:
  "\<not> truthy c \<Longrightarrow>
   mapAuthError E c d =
     Inr (if truthy_any d then d else Data (Str (js ''An error occurred. Please try again.'')))"
  by (simp add: mapAuthError_def or_any_def)

lemma mapAuthError_table:
  "map_of errorMap k = Some m \<Longrightarrow> mapAuthError E (Str k) d = Inr (Data (Str m))"
  by (frule errorMap_nonempty) (simp add: mapAuthError_def or_any_def errorMap_get_def)

lemma mapAuthError_inherited:
  "map_of errorMap k = None \<Longrightarrow> k \<in> set object_prototype_properties \<Longrightarrow>
   mapAuthError E (Str k) d = Inr (Builtin k)"
  by (frule object_prototype_properties_nonempty)
    (simp add: mapAuthError_def or_any_def errorMap_get_def)

lemma mapAuthError_unlisted:
  "errorMap_get k = Data Undefined \<Longrightarrow>
   mapAuthError E (Str k) d =
     Inr (if truthy_any d then d else Data (Str (js ''An error occurred. Please try again.'')))"
  by (simp add: mapAuthError_def or_any_def)

lemma mapAuthError_unknown:
  "mapAuthError E (Str (js ''unknown'')) d =
     Inr (if truthy_any d then d else Data (Str (js ''An error occurred. Please try again.'')))"
  using errorMap_get_unknown by (rule mapAuthError_unlisted)

text \<open>A falsy default is as good as none, and the call's own result is a fixed point.\<close>

lemma mapAuthError_falsy_default:
  "\<not> truthy_any d \<Longrightarrow> mapAuthError E c d = mapAuthError E c (Data Undefined)"
  by (simp add: mapAuthError_def or_any_def split: sum.splits)

lemma mapAuthError_own_result:
  "mapAuthError E c (Data Undefined) = Inr x \<Longrightarrow> mapAuthError E c x = Inr x"
  using fallback_truthy errorMap_get_truthy_cases
  by (auto simp: mapAuthError_def or_any_def split: sum.splits if_splits)

subsection \<open>When the conversion to a property key returns\<close>

lemma sequence_results_all_Inr:
  "(\<And>r. r \<in> set rs \<Longrightarrow> \<exists>x. r = Inr x) \<Longrightarrow> \<exists>xs. sequence_results rs = Inr xs"
proof (induction rs)
  case Nil
  show ?case by simp
next
  case (Cons r rs)
  then obtain x where "r = Inr x" by auto
  moreover from Cons obtain xs where "sequence_results rs = Inr xs" by auto
  ultimately show ?case by simp
qed

lemma ToString_returns: "no_own_toString v \<Longrightarrow> \<exists>k. ToString E v = Inr k"
proof (induction E v rule: ToString.induct)
  case (6 E xs)
  have "\<exists>ss. sequence_results
      (map (\<lambda>x. if x = Undefined \<or> x = Null then Inr [] else ToString E x) xs) = Inr ss"
  proof (rule sequence_results_all_Inr)
    fix r
    assume "r \<in> set (map (\<lambda>x. if x = Undefined \<or> x = Null then Inr [] else ToString E x) xs)"
    then obtain x where x: "x \<in> set xs"
      and r: "r = (if x = Undefined \<or> x = Null then Inr [] else ToString E x)" by auto
    from "6.prems" x have "no_own_toString x" by (simp add: list_all_iff)
    with "6.IH" x r show "\<exists>y. r = Inr y" by (cases "x = Undefined \<or> x = Null") auto
  qed
  then show ?case by auto
qed simp_all

lemma mapAuthError_returns: "no_own_toString c \<Longrightarrow> \<exists>x. mapAuthError E c d = Inr x"
  using ToString_returns [of c E] by (auto simp: mapAuthError_def)

subsection \<open>The object branch of \<open>extractAuthError\<close>\<close>

lemma get_property_defined:
  "get_property v k \<noteq> Undefined \<Longrightarrow> truthy v \<and> typeof v = T_object"
  by (cases v) simp_all

lemma typeof_object_cases:
  "typeof v = T_object \<Longrightarrow> v \<noteq> Null \<Longrightarrow> truthy v \<and> typeof v \<noteq> T_string"
  by (cases v) simp_all

text \<open>
  The two calls of \<open>mapAuthError\<close> in the object branch amount to one, with the
  object's own message as the default.
\<close>

lemma extractAuthError_object_branch:
  assumes "typeof (get_property data (js ''error'')) = T_object"
    and "get_property data (js ''error'') \<noteq> Null"
  shows "extractAuthError E data =
     (let error = get_property data (js ''error'');
          errorCode = (if truthy (get_property error (js ''code''))
                       then get_property error (js ''code'') else Str (js ''unknown''))
      in case mapAuthError E errorCode (Data (get_property error (js ''message''))) of
           Inl e \<Rightarrow> Inl e
         | Inr m \<Rightarrow> Inr (Some \<lparr>code = errorCode, message = m\<rparr>))"
proof -
  let ?error = "get_property data (js ''error'')"
  let ?c = "if truthy (get_property ?error (js ''code''))
            then get_property ?error (js ''code'') else Str (js ''unknown'')"
  let ?msg = "get_property ?error (js ''message'')"
  from assms have "?error \<noteq> Undefined" by auto
  then have data: "truthy data" "typeof data = T_object"
    using get_property_defined by blast+
  from assms have error: "truthy ?error" "typeof ?error \<noteq> T_string"
    using typeof_object_cases by blast+
  have unfolded: "extractAuthError E data =
      (case (if truthy ?msg then Inr (Data ?msg) else mapAuthError E ?c (Data Undefined)) of
         Inl e \<Rightarrow> Inl e
       | Inr errorMessage \<Rightarrow>
           (case mapAuthError E ?c errorMessage of
              Inl e \<Rightarrow> Inl e
            | Inr m \<Rightarrow> Inr (Some \<lparr>code = ?c, message = m\<rparr>)))"
    using data error assms by (simp add: extractAuthError_def Let_def or_value_def)
  show ?thesis
  proof (cases "truthy ?msg")
    case True
    then show ?thesis unfolding unfolded by (simp add: Let_def)
  next
    case False
    then have same: "mapAuthError E ?c (Data ?msg) = mapAuthError E ?c (Data Undefined)"
      by (intro mapAuthError_falsy_default) simp
    show ?thesis
    proof (cases "mapAuthError E ?c (Data Undefined)")
      case (Inl e)
      with False same show ?thesis unfolding unfolded by (simp add: Let_def)
    next
      case (Inr x)
      then have "mapAuthError E ?c x = Inr x" by (rule mapAuthError_own_result)
      with False same Inr show ?thesis unfolding unfolded by (simp add: Let_def)
    qed
  qed
qed

subsection \<open>The claims about \<open>mapAuthError\<close>\<close>

text \<open>
  The precedence of \<open>mapAuthError\<close> on string codes: a falsy code gives the default if
  truthy, else the fallback; a code of the table gives the table's message whatever the
  default; a code that is neither in the table nor the name of an inherited property gives
  the default if truthy, else the fallback.
\<close>

lemma mapAuthError_precedence:
  "(\<not> truthy c \<longrightarrow>
      mapAuthError E c d =
        Inr (if truthy_any d then d else Data (Str (js ''An error occurred. Please try again.''))))
   \<and> (map_of errorMap k = Some m \<longrightarrow> mapAuthError E (Str k) d = Inr (Data (Str m)))
   \<and> (map_of errorMap k = None \<and> k \<notin> set object_prototype_properties \<longrightarrow>
      mapAuthError E (Str k) d =
        Inr (if truthy_any d then d else Data (Str (js ''An error occurred. Please try again.''))))"
  by (simp add: mapAuthError_falsy mapAuthError_table mapAuthError_unlisted errorMap_get_def)

text \<open>
  C3. The precedence claimed for \<open>mapAuthError\<close> (no code: the default, else the
  fallback; a table code: the table's message; any other code: the default, else the
  fallback) holds, by \<open>mapAuthError_precedence\<close>, for every code that is not the name of
  a property inherited by \<open>errorMap\<close>.
  It fails for a code that names a property inherited from \<open>Object.prototype\<close>: the code
  \<open>constructor\<close> is not in the table, yet the call returns neither the default \<open>X\<close>
  nor the fallback but the inherited built-in.
\<close>

theorem mapAuthError_constructor:
  "map_of errorMap (js ''constructor'') = None
   \<and> mapAuthError E (Str (js ''constructor'')) (Data (Str (js ''X''))) =
       Inr (Builtin (js ''constructor''))
   \<and> mapAuthError E (Str (js ''constructor'')) (Data Undefined) =
       Inr (Builtin (js ''constructor''))"
  by (simp add: errorMap_constructor mapAuthError_inherited)

text \<open>
  The table, string for string. For each of the fifteen documented codes,
  \<open>mapAuthError\<close> without a default returns exactly the documented message; and
  without a default the call returns exactly \<open>An error occurred. Please try again.\<close>
  for an absent code, for the empty code and for a code that resolves to no property of
  \<open>errorMap\<close>, own or inherited.
\<close>

theorem mapAuthError_table_messages:
  "mapAuthError E (Str (js ''invalid_credentials'')) (Data Undefined) =
       Inr (Data (Str (js ''Invalid email or password. Please check your credentials and try again.'')))
   \<and> mapAuthError E (Str (js ''invalid_email'')) (Data Undefined) =
       Inr (Data (Str (js ''Please enter a valid email address.'')))
   \<and> mapAuthError E (Str (js ''invalid_password'')) (Data Undefined) =
       Inr (Data (Str (js ''Password does not meet requirements. Please check the password policy.'')))
   \<and> mapAuthError E (Str (js ''user_already_exists'')) (Data Undefined) =
       Inr (Data (Str (js ''An account with this email already exists. Please sign in instead.'')))
   \<and> mapAuthError E (Str (js ''email_already_registered'')) (Data Undefined) =
       Inr (Data (Str (js ''An account with this email already exists. Please sign in instead.'')))
   \<and> mapAuthError E (Str (js ''csrf_token_invalid'')) (Data Undefined) =
       Inr (Data (Str (js ''Security token expired. Please refresh the page and try again.'')))
   \<and> mapAuthError E (Str (js ''csrf_token_missing'')) (Data Undefined) =
       Inr (Data (Str (js ''Security token missing. Please refresh the page and try again.'')))
   \<and> mapAuthError E (Str (js ''csrf_token_expired'')) (Data Undefined) =
       Inr (Data (Str (js ''Security token expired. Please refresh the page and try again.'')))
   \<and> mapAuthError E (Str (js ''rate_limit_exceeded'')) (Data Undefined) =
       Inr (Data (Str (js ''Too many attempts. Please wait a moment and try again.'')))
   \<and> mapAuthError E (Str (js ''account_locked'')) (Data Undefined) =
       Inr (Data (Str (js ''Account temporarily locked due to multiple failed login attempts. Please try again in 15 minutes.'')))
   \<and> mapAuthError E (Str (js ''account_suspended'')) (Data Undefined) =
       Inr (Data (Str (js ''Your account has been suspended. Please contact support for assistance.'')))
   \<and> mapAuthError E (Str (js ''service_unavailable'')) (Data Undefined) =
       Inr (Data (Str (js ''Authentication service is temporarily unavailable. Please try again in a moment.'')))
   \<and> mapAuthError E (Str (js ''internal_error'')) (Data Undefined) =
       Inr (Data (Str (js ''An unexpected error occurred. Please try again.'')))
   \<and> mapAuthError E (Str (js ''network_error'')) (Data Undefined) =
       Inr (Data (Str (js ''Network error. Please check your connection and try again.'')))
   \<and> mapAuthError E (Str (js ''timeout'')) (Data Undefined) =
       Inr (Data (Str (js ''Request timed out. Please try again.'')))
   \<and> mapAuthError E Undefined (Data Undefined) =
       Inr (Data (Str (js ''An error occurred. Please try again.'')))
   \<and> mapAuthError E (Str []) (Data Undefined) =
       Inr (Data (Str (js ''An error occurred. Please try again.'')))
   \<and> (\<forall>k. errorMap_get k = Data Undefined \<longrightarrow>
         mapAuthError E (Str k) (Data Undefined) =
           Inr (Data (Str (js ''An error occurred. Please try again.''))))"
  by (simp add: mapAuthError_table errorMap_lookup mapAuthError_falsy mapAuthError_unlisted)

text \<open>The examples of the specification: an unlisted code and a listed one.\<close>

theorem mapAuthError_table_messages_witness:
  "mapAuthError sample_engine (Str (js ''nonexistent_code'')) (Data Undefined) =
     Inr (Data (Str (js ''An error occurred. Please try again.'')))
   \<and> mapAuthError sample_engine (Str (js ''invalid_credentials'')) (Data Undefined) =
     Inr (Data (Str (js
       ''Invalid email or password. Please check your credentials and try again.'')))"
  using mapAuthError_table_messages [of sample_engine] errorMap_get_nonexistent_code
  by blast

lemma errorMap_toString:
  "map_of errorMap (js ''toString'') = None"
  "js ''toString'' \<in> set object_prototype_properties"
  by (simp_all add: lookup_simps)

text \<open>
  C4. The fifteen documented codes give exactly the documented messages, and an absent
  code without a default gives exactly the generic fallback
  (\<open>mapAuthError_table_messages\<close>). But the fallback is not what every unrecognized code
  without a default gives: the code \<open>toString\<close> is not in the table, and the call returns
  the built-in that \<open>errorMap\<close> inherits under that name, which is not the fallback
  string.
\<close>

theorem mapAuthError_unrecognized_no_default:
  "map_of errorMap (js ''toString'') = None
   \<and> mapAuthError E (Str (js ''toString'')) (Data Undefined) = Inr (Builtin (js ''toString''))
   \<and> mapAuthError E (Str (js ''toString'')) (Data Undefined) \<noteq>
       Inr (Data (Str (js ''An error occurred. Please try again.'')))"
  by (simp add: errorMap_toString mapAuthError_inherited)

subsection \<open>The claims about \<open>extractAuthError\<close>\<close>

lemmas payload_simps = js_inject js_empty_iff

text \<open>
  C5, as the code has it. For every payload whose \<open>error\<close> field is an object (or an
  array), the outcome of \<open>extractAuthError\<close> is the outcome of
  \<open>mapAuthError(code, message)\<close>, where \<open>code\<close> is the object's code when that is
  truthy and \<open>unknown\<close> otherwise (absent, null, and also the empty string, 0, NaN and
  false) and \<open>message\<close> is the object's message: when that call returns \<open>m\<close> the result
  is the record of \<open>code\<close> and \<open>m\<close>. Hence for a code of the table the result carries
  the table's message, whatever message the server sent.
\<close>

theorem extractAuthError_object:
  "typeof (get_property data (js ''error'')) = T_object \<and> get_property data (js ''error'') \<noteq> Null
   \<longrightarrow>
   (let error = get_property data (js ''error'');
        errorCode = (if truthy (get_property error (js ''code''))
                     then get_property error (js ''code'') else Str (js ''unknown''))
    in extractAuthError E data =
         (case mapAuthError E errorCode (Data (get_property error (js ''message''))) of
            Inl e \<Rightarrow> Inl e
          | Inr m \<Rightarrow> Inr (Some \<lparr>code = errorCode, message = m\<rparr>))
       \<and> (\<forall>k m. errorCode = Str k \<and> map_of errorMap k = Some m \<longrightarrow>
             extractAuthError E data = Inr (Some \<lparr>code = Str k, message = Data (Str m)\<rparr>)))"
proof (intro impI, elim conjE)
  assume obj: "typeof (get_property data (js ''error'')) = T_object"
    "get_property data (js ''error'') \<noteq> Null"
  note branch = extractAuthError_object_branch [OF obj, of E]
  show "let error = get_property data (js ''error'');
        errorCode = (if truthy (get_property error (js ''code''))
                     then get_property error (js ''code'') else Str (js ''unknown''))
    in extractAuthError E data =
         (case mapAuthError E errorCode (Data (get_property error (js ''message''))) of
            Inl e \<Rightarrow> Inl e
          | Inr m \<Rightarrow> Inr (Some \<lparr>code = errorCode, message = m\<rparr>))
       \<and> (\<forall>k m. errorCode = Str k \<and> map_of errorMap k = Some m \<longrightarrow>
             extractAuthError E data = Inr (Some \<lparr>code = Str k, message = Data (Str m)\<rparr>))"
    unfolding Let_def
  proof (intro conjI allI impI, goal_cases)
    case 1
    show ?case using branch by (simp add: Let_def)
  next
    case (2 k m)
    then show ?case using branch mapAuthError_table [of k m E] by (simp add: Let_def)
  qed
qed

text \<open>
  The example of the specification: the server's message \<open>ignored\<close> is discarded for the
  message of the table.
\<close>

theorem extractAuthError_object_witness:
  "extractAuthError sample_engine
     (Obj [(js ''error'', Obj [(js ''code'', Str (js ''invalid_email'')),
                               (js ''message'', Str (js ''ignored''))])]) =
   Inr (Some \<lparr>code = Str (js ''invalid_email''),
              message = Data (Str (js ''Please enter a valid email address.''))\<rparr>)"
  using extractAuthError_object [of
      "Obj [(js ''error'', Obj [(js ''code'', Str (js ''invalid_email'')),
                                (js ''message'', Str (js ''ignored''))])]" sample_engine]
    mapAuthError_table [OF errorMap_lookup(2)]
  by (simp add: payload_simps Let_def)

text \<open>
  The claim as worded fails on an empty code: it is neither absent nor null, yet the
  returned code is \<open>unknown\<close> and not the object's code.
\<close>

theorem extractAuthError_object_counterexample:
  "get_property (Obj [(js ''code'', Str []), (js ''message'', Str (js ''boom''))]) (js ''code'')
     = Str []
   \<and> Str [] \<noteq> Undefined \<and> Str [] \<noteq> Null
   \<and> extractAuthError sample_engine
       (Obj [(js ''error'', Obj [(js ''code'', Str []), (js ''message'', Str (js ''boom''))])]) =
     Inr (Some \<lparr>code = Str (js ''unknown''), message = Data (Str (js ''boom''))\<rparr>)
   \<and> Str (js ''unknown'') \<noteq> Str []"
  using extractAuthError_object_branch [of
      "Obj [(js ''error'', Obj [(js ''code'', Str []), (js ''message'', Str (js ''boom''))])]"
      sample_engine]
  by (simp add: payload_simps Let_def mapAuthError_unknown)

text \<open>
  C6. For every payload whose \<open>error\<close> field is a non-empty string \<open>s\<close>, the result is the
  record of the code \<open>unknown\<close> and the message \<open>s\<close> itself: the string does not go
  through \<open>mapAuthError\<close>, even when it spells a code of the table.
\<close>

theorem extractAuthError_string:
  "get_property data (js ''error'') = Str s \<and> s \<noteq> [] \<longrightarrow>
   extractAuthError E data = Inr (Some \<lparr>code = Str (js ''unknown''), message = Data (Str s)\<rparr>)"
proof (intro impI, elim conjE)
  assume s: "get_property data (js ''error'') = Str s" "s \<noteq> []"
  then have "truthy data" "typeof data = T_object"
    using get_property_defined [of data "js ''error''"] by simp_all
  with s show "extractAuthError E data =
      Inr (Some \<lparr>code = Str (js ''unknown''), message = Data (Str s)\<rparr>)"
    by (simp add: extractAuthError_def)
qed

theorem extractAuthError_string_witness:
  "extractAuthError sample_engine (Obj [(js ''error'', Str (js ''plain text''))]) =
     Inr (Some \<lparr>code = Str (js ''unknown''), message = Data (Str (js ''plain text''))\<rparr>)
   \<and> extractAuthError sample_engine (Obj [(js ''error'', Str (js ''invalid_email''))]) =
     Inr (Some \<lparr>code = Str (js ''unknown''), message = Data (Str (js ''invalid_email''))\<rparr>)"
  using extractAuthError_string [of "Obj [(js ''error'', Str (js ''plain text''))]"
      "js ''plain text''" sample_engine]
    extractAuthError_string [of "Obj [(js ''error'', Str (js ''invalid_email''))]"
      "js ''invalid_email''" sample_engine]
  by (simp add: payload_simps)

text \<open>
  C8. \<open>extractAuthError\<close> returns absent for every payload that is not an object (a
  primitive, undefined, null) and for every payload that has no \<open>error\<close> field; so it
  does for \<open>{}\<close>, \<open>null\<close> and a string.
\<close>

theorem extractAuthError_absent:
  "typeof data \<noteq> T_object \<or> data = Null \<or> get_property data (js ''error'') = Undefined \<longrightarrow>
   extractAuthError E data = Inr None"
  by (auto simp: extractAuthError_def)

theorem extractAuthError_absent_witness:
  "extractAuthError sample_engine (Obj []) = Inr None
   \<and> extractAuthError sample_engine Null = Inr None
   \<and> extractAuthError sample_engine (Str (js ''string'')) = Inr None"
  using extractAuthError_absent [of "Obj []" sample_engine]
    extractAuthError_absent [of Null sample_engine]
    extractAuthError_absent [of "Str (js ''string'')" sample_engine]
  by (simp add: payload_simps)

text \<open>
  C9, as the code has it. \<open>extractAuthError\<close> returns, without throwing, for every payload
  whose \<open>error.code\<close> holds no object with an own \<open>toString\<close> property (so whenever the
  code is absent or a primitive); an \<open>error\<close> value that is neither a string nor an
  object (a number, a boolean) gives absent, and so does a falsy one; an \<open>error\<close> object
  or array with neither a truthy code nor a truthy message degrades to the code
  \<open>unknown\<close> with the generic fallback message.
\<close>

theorem extractAuthError_degrades:
  "(no_own_toString (get_property (get_property data (js ''error'')) (js ''code'')) \<longrightarrow>
      (\<exists>r. extractAuthError E data = Inr r))
   \<and> (typeof (get_property data (js ''error'')) \<noteq> T_string
        \<and> typeof (get_property data (js ''error'')) \<noteq> T_object \<longrightarrow>
      extractAuthError E data = Inr None)
   \<and> (\<not> truthy (get_property data (js ''error'')) \<longrightarrow> extractAuthError E data = Inr None)
   \<and> (typeof (get_property data (js ''error'')) = T_object
        \<and> get_property data (js ''error'') \<noteq> Null
        \<and> \<not> truthy (get_property (get_property data (js ''error'')) (js ''code''))
        \<and> \<not> truthy (get_property (get_property data (js ''error'')) (js ''message'')) \<longrightarrow>
      extractAuthError E data =
        Inr (Some \<lparr>code = Str (js ''unknown''),
                   message = Data (Str (js ''An error occurred. Please try again.''))\<rparr>))"
proof (intro conjI impI)
  let ?error = "get_property data (js ''error'')"
  let ?code = "get_property ?error (js ''code'')"
  show "extractAuthError E data = Inr None"
    if "typeof ?error \<noteq> T_string \<and> typeof ?error \<noteq> T_object"
    using that by (simp add: extractAuthError_def Let_def)
  show "extractAuthError E data = Inr None" if "\<not> truthy ?error"
    using that by (simp add: extractAuthError_def Let_def)
  show "extractAuthError E data =
        Inr (Some \<lparr>code = Str (js ''unknown''),
                   message = Data (Str (js ''An error occurred. Please try again.''))\<rparr>)"
    if "typeof ?error = T_object \<and> ?error \<noteq> Null \<and> \<not> truthy ?code
        \<and> \<not> truthy (get_property ?error (js ''message''))"
    using that extractAuthError_object_branch [of data E]
    by (simp add: Let_def mapAuthError_unknown)
  show "\<exists>r. extractAuthError E data = Inr r" if ok: "no_own_toString ?code"
  proof (cases "typeof ?error = T_object \<and> ?error \<noteq> Null")
    case True
    let ?c = "if truthy ?code then ?code else Str (js ''unknown'')"
    have "no_own_toString ?c" using ok by simp
    then obtain x where "mapAuthError E ?c (Data (get_property ?error (js ''message''))) = Inr x"
      using mapAuthError_returns by blast
    with True show ?thesis
      using extractAuthError_object_branch [of data E] by (simp add: Let_def)
  next
    case False
    then show ?thesis by (auto simp: extractAuthError_def Let_def)
  qed
qed

text \<open>
  An empty \<open>error\<close> object and an empty array degrade to \<open>unknown\<close> with the fallback;
  \<open>true\<close> and the empty string as \<open>error\<close> give absent; a numeric code does not throw.
\<close>

theorem extractAuthError_degrades_witness:
  "extractAuthError sample_engine (Obj [(js ''error'', Obj [])]) =
     Inr (Some \<lparr>code = Str (js ''unknown''),
                message = Data (Str (js ''An error occurred. Please try again.''))\<rparr>)
   \<and> extractAuthError sample_engine (Obj [(js ''error'', Arr [])]) =
     Inr (Some \<lparr>code = Str (js ''unknown''),
                message = Data (Str (js ''An error occurred. Please try again.''))\<rparr>)
   \<and> extractAuthError sample_engine (Obj [(js ''error'', Bool True)]) = Inr None
   \<and> extractAuthError sample_engine (Obj [(js ''error'', Str [])]) = Inr None
   \<and> (\<exists>r. extractAuthError sample_engine
             (Obj [(js ''error'', Obj [(js ''code'', Num (Finite 404))])]) = Inr r)"
  using extractAuthError_degrades [of "Obj [(js ''error'', Obj [])]" sample_engine]
    extractAuthError_degrades [of "Obj [(js ''error'', Arr [])]" sample_engine]
    extractAuthError_degrades [of "Obj [(js ''error'', Bool True)]" sample_engine]
    extractAuthError_degrades [of "Obj [(js ''error'', Str [])]" sample_engine]
    extractAuthError_degrades [of "Obj [(js ''error'', Obj [(js ''code'', Num (Finite 404))])]"
      sample_engine]
  by (simp add: payload_simps)

text \<open>
  The claim as worded fails twice. A numeric \<open>error\<close> is a malformed shape, and the
  result is absent, not the code \<open>unknown\<close> with the fallback. And a code that is an
  object with an own \<open>toString\<close> property makes the call throw a TypeError.
\<close>

theorem extractAuthError_degrades_counterexample:
  "extractAuthError sample_engine (Obj [(js ''error'', Num (Finite 42))]) = Inr None
   \<and> extractAuthError sample_engine
       (Obj [(js ''error'', Obj [(js ''code'', Obj [(js ''toString'', Num (Finite 1))])])]) =
     Inl TypeError"
  by (simp add: extractAuthError_def mapAuthError_def or_value_def payload_simps Let_def)

text \<open>
  C10. In the object branch an empty string counts as an absent value. With the code
  absent or empty the returned code is \<open>unknown\<close> (and the message is the object's
  message if truthy, else the fallback); with the message absent or empty the returned
  message is the mapped message \<open>mapAuthError(code)\<close>; and the payload whose error has
  the empty code and the empty message gives \<open>unknown\<close> with the fallback.
\<close>

theorem extractAuthError_empty_string:
  "(typeof (get_property data (js ''error'')) = T_object \<and> get_property data (js ''error'') \<noteq> Null
    \<longrightarrow>
    (let error = get_property data (js ''error'');
         errorCode = (if truthy (get_property error (js ''code''))
                      then get_property error (js ''code'') else Str (js ''unknown''))
     in (get_property error (js ''code'') = Str [] \<or> get_property error (js ''code'') = Undefined
           \<longrightarrow>
         extractAuthError E data =
           Inr (Some \<lparr>code = Str (js ''unknown''),
                      message =
                        (if truthy (get_property error (js ''message''))
                         then Data (get_property error (js ''message''))
                         else Data (Str (js ''An error occurred. Please try again.'')))\<rparr>))
      \<and> (get_property error (js ''message'') = Str []
            \<or> get_property error (js ''message'') = Undefined \<longrightarrow>
          extractAuthError E data =
            (case mapAuthError E errorCode (Data Undefined) of
               Inl e \<Rightarrow> Inl e
             | Inr m \<Rightarrow> Inr (Some \<lparr>code = errorCode, message = m\<rparr>)))))
   \<and> extractAuthError E
       (Obj [(js ''error'', Obj [(js ''code'', Str []), (js ''message'', Str [])])]) =
     Inr (Some \<lparr>code = Str (js ''unknown''),
                message = Data (Str (js ''An error occurred. Please try again.''))\<rparr>)"
proof (intro conjI impI)
  let ?p = "Obj [(js ''error'', Obj [(js ''code'', Str []), (js ''message'', Str [])])]"
  show "extractAuthError E ?p =
     Inr (Some \<lparr>code = Str (js ''unknown''),
                message = Data (Str (js ''An error occurred. Please try again.''))\<rparr>)"
    using extractAuthError_object_branch [of ?p E]
    by (simp add: payload_simps Let_def mapAuthError_unknown)
next
  let ?error = "get_property data (js ''error'')"
  let ?c = "if truthy (get_property ?error (js ''code''))
            then get_property ?error (js ''code'') else Str (js ''unknown'')"
  let ?msg = "get_property ?error (js ''message'')"
  assume "typeof ?error = T_object \<and> ?error \<noteq> Null"
  then have branch: "extractAuthError E data =
      (case mapAuthError E ?c (Data ?msg) of
         Inl e \<Rightarrow> Inl e
       | Inr m \<Rightarrow> Inr (Some \<lparr>code = ?c, message = m\<rparr>))"
    using extractAuthError_object_branch [of data E] by (simp add: Let_def)
  have code_part: "extractAuthError E data =
      Inr (Some \<lparr>code = Str (js ''unknown''),
                 message = (if truthy ?msg then Data ?msg
                            else Data (Str (js ''An error occurred. Please try again.'')))\<rparr>)"
    if "get_property ?error (js ''code'') = Str [] \<or> get_property ?error (js ''code'') = Undefined"
    using that branch by (auto simp: mapAuthError_unknown)
  have message_part: "extractAuthError E data =
      (case mapAuthError E ?c (Data Undefined) of
         Inl e \<Rightarrow> Inl e
       | Inr m \<Rightarrow> Inr (Some \<lparr>code = ?c, message = m\<rparr>))"
    if "?msg = Str [] \<or> ?msg = Undefined"
  proof -
    from that have "\<not> truthy_any (Data ?msg)" by auto
    then have "mapAuthError E ?c (Data ?msg) = mapAuthError E ?c (Data Undefined)"
      by (rule mapAuthError_falsy_default)
    with branch show ?thesis by simp
  qed
  show "let error = get_property data (js ''error'');
         errorCode = (if truthy (get_property error (js ''code''))
                      then get_property error (js ''code'') else Str (js ''unknown''))
     in (get_property error (js ''code'') = Str [] \<or> get_property error (js ''code'') = Undefined
           \<longrightarrow>
         extractAuthError E data =
           Inr (Some \<lparr>code = Str (js ''unknown''),
                      message =
                        (if truthy (get_property error (js ''message''))
                         then Data (get_property error (js ''message''))
                         else Data (Str (js ''An error occurred. Please try again.'')))\<rparr>))
      \<and> (get_property error (js ''message'') = Str []
            \<or> get_property error (js ''message'') = Undefined \<longrightarrow>
          extractAuthError E data =
            (case mapAuthError E errorCode (Data Undefined) of
               Inl e \<Rightarrow> Inl e
             | Inr m \<Rightarrow> Inr (Some \<lparr>code = errorCode, message = m\<rparr>)))"
    unfolding Let_def using code_part message_part by blast
qed

text \<open>
  An empty code beside a message keeps the message under the code \<open>unknown\<close>; an empty
  message beside a code of the table is replaced by the table's message.
\<close>

theorem extractAuthError_empty_string_witness:
  "extractAuthError sample_engine
     (Obj [(js ''error'', Obj [(js ''code'', Str []), (js ''message'', Str (js ''boom''))])]) =
   Inr (Some \<lparr>code = Str (js ''unknown''), message = Data (Str (js ''boom''))\<rparr>)
   \<and> extractAuthError sample_engine
     (Obj [(js ''error'', Obj [(js ''code'', Str (js ''timeout'')), (js ''message'', Str [])])]) =
   Inr (Some \<lparr>code = Str (js ''timeout''),
              message = Data (Str (js ''Request timed out. Please try again.''))\<rparr>)"
  using extractAuthError_empty_string [of
      "Obj [(js ''error'', Obj [(js ''code'', Str []), (js ''message'', Str (js ''boom''))])]"
      sample_engine]
    extractAuthError_empty_string [of
      "Obj [(js ''error'', Obj [(js ''code'', Str (js ''timeout'')), (js ''message'', Str [])])]"
      sample_engine]
    mapAuthError_table [OF errorMap_lookup(15)]
  by (simp add: payload_simps Let_def)

end
